theory Spec2Isabelle
  imports Main "HOL-Library.Sublist"
begin

section \<open>Values shared by both servers\<close>

text \<open>
  Both servers handle decoded JSON: token claims and the token endpoint's response are
  Python dictionaries from strings to JSON values. Python's \<open>None\<close> is \<open>JNull\<close>.
  Numbers are integers here (NumericDate claims such as \<open>exp\<close>); fractional numbers are
  not modelled. Strings are lists of 8-bit characters and are read as ASCII.
\<close>

datatype json =
    JNull
  | JBool bool
  | JInt int
  | JStr string
  | JList "json list"
  | JObj "(string \<times> json) list"

type_synonym py_dict = "string \<rightharpoonup> json"

text \<open>
  Exceptions that the modelled code raises or lets through. \<open>PyJWTError\<close> stands for the
  whole class \<open>jwt.PyJWTError\<close> (its argument names the subclass); \<open>OtherError\<close> is any
  exception of a library call that is none of the others.
\<close>

datatype exn =
    PyJWTError string
  | AttributeError
  | KeyError string
  | RuntimeError string
  | OtherError string

text \<open>\<open>d.get(k)\<close> and \<open>d.get(k, default)\<close>.\<close>

definition dict_get :: "py_dict \<Rightarrow> string \<Rightarrow> json" where
  "dict_get d k = (case d k of None \<Rightarrow> JNull | Some v \<Rightarrow> v)"

definition dict_get_default :: "py_dict \<Rightarrow> string \<Rightarrow> json \<Rightarrow> json" where
  "dict_get_default d k dflt = (case d k of None \<Rightarrow> dflt | Some v \<Rightarrow> v)"

text \<open>Python truthiness of a decoded JSON value, and the value of \<open>a or b\<close>.\<close>

fun truthy :: "json \<Rightarrow> bool" where
  "truthy JNull = False"
| "truthy (JBool b) = b"
| "truthy (JInt n) = (n \<noteq> 0)"
| "truthy (JStr s) = (s \<noteq> [])"
| "truthy (JList xs) = (xs \<noteq> [])"
| "truthy (JObj kvs) = (kvs \<noteq> [])"

definition py_or :: "json \<Rightarrow> json \<Rightarrow> json" where
  "py_or a b = (if truthy a then a else b)"

text \<open>
  \<open>str.split()\<close> without arguments: the words between runs of whitespace, no empty
  word. The whitespace characters are the ASCII ones that \<open>str.isspace\<close> accepts.
\<close>

definition py_isspace :: "char \<Rightarrow> bool" where
  "py_isspace c = (c \<in> set [CHR '' '', CHR 0x09, CHR 0x0A, CHR 0x0B, CHR 0x0C, CHR 0x0D,
      CHR 0x1C, CHR 0x1D, CHR 0x1E, CHR 0x1F])"

fun py_split_acc :: "string \<Rightarrow> string \<Rightarrow> string list" where
  "py_split_acc cur [] = (if cur = [] then [] else [cur])"
| "py_split_acc cur (c # cs) =
     (if py_isspace c
      then (if cur = [] then py_split_acc [] cs else cur # py_split_acc [] cs)
      else py_split_acc (cur @ [c]) cs)"

definition py_split :: "string \<Rightarrow> string list" where
  "py_split s = py_split_acc [] s"

text \<open>
  The result of a successful verification (fastmcp's \<open>AccessToken\<close>, the spec's
  Principal). \<open>client_id\<close> and \<open>expires_at\<close> hold the values the code passes to the
  constructor; the constructor's own validation of them is not modelled. \<open>scopes\<close> is a
  set: \<open>list(token_scopes)\<close> lists a Python set in no particular order.
\<close>

record AccessToken =
  token :: string
  client_id :: json
  scopes :: "string set"
  expires_at :: json
  claims :: py_dict

record TokenVerifier =
  required_scopes :: "string list"

section \<open>src/server.py: the claims-only verifier\<close>

text \<open>The keyword arguments of the call \<open>pyjwt.decode(token, key=None, ...)\<close>.\<close>

record decode_options =
  verify_signature :: bool
  verify_exp :: bool
  verify_aud :: bool
  verify_iss :: bool
  require :: "string list"

record decode_args =
  d_jwt :: string
  d_key :: "string option"
  d_algorithms :: "string list"
  d_audience :: string
  d_issuer :: "string list"
  d_options :: decode_options

record GraphTokenVerifier = TokenVerifier +
  audience :: string
  issuers :: "string list"

text \<open>\<open>__init__\<close>: a single issuer string becomes a one-element list.\<close>

datatype issuer_arg = IssuerStr string | IssuerList "string list"

definition GraphTokenVerifier_init ::
  "string \<Rightarrow> issuer_arg \<Rightarrow> string list \<Rightarrow> GraphTokenVerifier" where
  "GraphTokenVerifier_init aud iss req =
     \<lparr>required_scopes = req, audience = aud,
      issuers = (case iss of IssuerStr i \<Rightarrow> [i] | IssuerList is \<Rightarrow> is)\<rparr>"

text \<open>The module-level \<open>token_verifier\<close> of src/server.py, for a tenant id.\<close>

definition token_verifier_graph :: "string \<Rightarrow> GraphTokenVerifier" where
  "token_verifier_graph tenant_id =
     GraphTokenVerifier_init ''00000003-0000-0000-c000-000000000000''
       (IssuerStr (''https://sts.windows.net/'' @ tenant_id @ ''/''))
       [''User.Read'', ''Mail.Read'']"

definition decode_call :: "GraphTokenVerifier \<Rightarrow> string \<Rightarrow> decode_args" where
  "decode_call self tok =
     \<lparr>d_jwt = tok, d_key = None, d_algorithms = [''RS256''],
      d_audience = audience self, d_issuer = issuers self,
      d_options = \<lparr>verify_signature = False, verify_exp = True, verify_aud = True,
                   verify_iss = True, require = [''exp'', ''aud'', ''iss'']\<rparr>\<rparr>"

text \<open>
  \<open>set(claims.get("scp", "").split())\<close>: only a string has \<open>split\<close>; any other value
  of the claim (a JSON array, a number, null) raises \<open>AttributeError\<close>.
\<close>

definition token_scopes :: "py_dict \<Rightarrow> exn + string set" where
  "token_scopes cl =
     (case dict_get_default cl ''scp'' (JStr []) of
        JStr s \<Rightarrow> Inr (set (py_split s))
      | _ \<Rightarrow> Inl AttributeError)"

text \<open>
  \<open>GraphTokenVerifier.verify_token\<close>. The call of the third-party decoder is the
  parameter \<open>decode\<close>; \<open>Inl\<close> is a raised exception, \<open>Inr None\<close> the returned
  \<open>None\<close>. Only \<open>PyJWTError\<close> is caught. Logging is left out: it does not touch the
  result.
\<close>

definition verify_token ::
  "(decode_args \<Rightarrow> exn + py_dict) \<Rightarrow> GraphTokenVerifier \<Rightarrow> string
     \<Rightarrow> exn + AccessToken option" where
  "verify_token decode self tok =
     (if tok = [] then Inr None
      else case decode (decode_call self tok) of
          Inl (PyJWTError m) \<Rightarrow> Inr None
        | Inl e \<Rightarrow> Inl e
        | Inr cl \<Rightarrow>
            (case token_scopes cl of
               Inl e \<Rightarrow> Inl e
             | Inr ts \<Rightarrow>
                 (let missing = set (required_scopes self) - ts in
                  if missing \<noteq> {} then Inr None
                  else (case cl ''exp'' of
                          None \<Rightarrow> Inl (KeyError ''exp'')
                        | Some e \<Rightarrow>
                            Inr (Some \<lparr>token = tok,
                              client_id = py_or (py_or (dict_get cl ''appid'') (dict_get cl ''azp''))
                                            (JStr ''unknown''),
                              scopes = ts, expires_at = e, claims = cl\<rparr>)))))"

section \<open>The third-party JWT decoder\<close>

text \<open>
  What the libraries do with a token string and the clock is outside the repository:
  \<open>unverified_payload\<close> is the base64url and JSON decoding of the payload segment
  (\<open>None\<close> for a malformed token), \<open>signature_valid\<close> the cryptographic check against
  the published key set, \<open>current_time\<close> the clock in seconds, \<open>client_id_of\<close> the
  client identifier a signature-verifying library derives from the claims.
\<close>

record jwt_library =
  unverified_payload :: "string \<Rightarrow> py_dict option"
  signature_valid :: "string \<Rightarrow> bool"
  current_time :: int
  client_id_of :: "py_dict \<Rightarrow> json"

text \<open>Modelled from the spec: the expiry comparison of the absent verifiers (section
  4.3, step 2, and section 8: a token whose \<open>exp\<close> is strictly less than the current time
  is rejected, with no grace window). A token without \<open>exp\<close> is not rejected by this
  step; an \<open>exp\<close> that is not a number makes the token malformed.
\<close>

definition exp_rejected :: "py_dict \<Rightarrow> int \<Rightarrow> bool" where
  "exp_rejected cl now =
     (case cl ''exp'' of
        None \<Rightarrow> False
      | Some (JInt e) \<Rightarrow> e < now
      | Some _ \<Rightarrow> True)"

text \<open>Modelled from the spec: the issuer check of the absent verifiers (section 4.3,
  step 4: the issuer is a member of the configured allow-list).
\<close>

definition issuer_allowed :: "py_dict \<Rightarrow> string list \<Rightarrow> bool" where
  "issuer_allowed cl allowed =
     (case cl ''iss'' of Some (JStr i) \<Rightarrow> i \<in> set allowed | _ \<Rightarrow> False)"

text \<open>Modelled from the spec: \<open>pyjwt.decode\<close> of the third-party PyJWT package, which
  src/server.py calls and which is not among the sources. Following spec section 4.3: a
  malformed token is rejected; the signature is checked only when asked for; expiry is
  compared with the current time with no grace window (a token whose \<open>exp\<close> is strictly
  less than the current time is rejected); the audience equals the configured value
  exactly; the issuer is a member of the configured allow-list. A claim named in
  \<open>require\<close> must be present. Every rejection is a \<open>PyJWTError\<close>.
\<close>

definition jwt_decode :: "jwt_library \<Rightarrow> decode_args \<Rightarrow> exn + py_dict" where
  "jwt_decode lib args =
     (let opts = d_options args in
      if verify_signature opts \<and> \<not> signature_valid lib (d_jwt args)
      then Inl (PyJWTError ''InvalidSignatureError'')
      else case unverified_payload lib (d_jwt args) of
          None \<Rightarrow> Inl (PyJWTError ''DecodeError'')
        | Some cl \<Rightarrow>
            if filter (\<lambda>k. cl k = None) (require opts) \<noteq> []
            then Inl (PyJWTError ''MissingRequiredClaimError'')
            else if verify_exp opts \<and> exp_rejected cl (current_time lib)
            then Inl (PyJWTError ''ExpiredSignatureError'')
            else if verify_aud opts \<and> cl ''aud'' \<noteq> Some (JStr (d_audience args))
            then Inl (PyJWTError ''InvalidAudienceError'')
            else if verify_iss opts \<and> \<not> issuer_allowed cl (d_issuer args)
            then Inl (PyJWTError ''InvalidIssuerError'')
            else Inr cl)"

section \<open>src/example-obo/server.py: the signature-verified verifier\<close>

text \<open>
  The configuration fastmcp's \<open>JWTVerifier\<close> is constructed with, and the subclass
  \<open>AzureJWTVerifier\<close> with its \<open>_scope_prefix\<close>.
\<close>

record JWTVerifier = TokenVerifier +
  jwks_uri :: string
  issuer :: issuer_arg
  jwt_audience :: string
  algorithm :: string

record AzureJWTVerifier = JWTVerifier +
  scope_prefix :: string

definition identifier_uri :: "string \<Rightarrow> string" where
  "identifier_uri azure_client_id = ''api://'' @ azure_client_id"

text \<open>
  The module-level \<open>token_verifier\<close> of src/example-obo/server.py, for the discovery
  document's \<open>jwks_uri\<close> and \<open>issuer\<close> and the configured client id.
\<close>

definition token_verifier_obo :: "string \<Rightarrow> string \<Rightarrow> string \<Rightarrow> AzureJWTVerifier" where
  "token_verifier_obo meta_jwks_uri meta_issuer azure_client_id =
     \<lparr>required_scopes = [identifier_uri azure_client_id @ ''/access_as_user''],
      jwks_uri = meta_jwks_uri, issuer = IssuerStr meta_issuer,
      jwt_audience = azure_client_id, algorithm = ''RS256'',
      scope_prefix = identifier_uri azure_client_id\<rparr>"

text \<open>
  \<open>AzureJWTVerifier._extract_scopes\<close>; \<open>super_extract_scopes\<close> is the call
  \<open>super()._extract_scopes(claims)\<close>.
\<close>

definition extract_scopes ::
  "(py_dict \<Rightarrow> string list) \<Rightarrow> 'a AzureJWTVerifier_scheme \<Rightarrow> py_dict \<Rightarrow> string list" where
  "extract_scopes super_extract_scopes self cl =
     (let scs = super_extract_scopes cl in
      if scope_prefix self \<noteq> []
      then map (\<lambda>s. if CHR ''/'' \<in> set s then s else scope_prefix self @ ''/'' @ s) scs
      else scs)"

text \<open>
  \<open>normalize_scope\<close>, the spec's \<open>normalize(scope, namespace)\<close>, is what \<open>_extract_scopes\<close> does to one
  scope under the prefix \<open>ns\<close> (lemma \<open>extract_scopes_normalize_scope\<close> below): the guard on
  the prefix, then the conditional of the comprehension.
\<close>

definition normalize_scope :: "string \<Rightarrow> string \<Rightarrow> string" where
  "normalize_scope s ns =
     (if ns \<noteq> [] then (if CHR ''/'' \<in> set s then s else ns @ ''/'' @ s) else s)"

text \<open>
  \<open>AzureJWTVerifier.load_access_token\<close>; \<open>super_load_access_token\<close> is the call
  \<open>super().load_access_token(token)\<close>. The block that decodes the claims for debug
  logging sits in a \<open>try\<close> that catches every \<open>Exception\<close> and only logs, so the
  result is the superclass's.
\<close>

definition load_access_token ::
  "(string \<Rightarrow> exn + AccessToken option) \<Rightarrow> string \<Rightarrow> exn + AccessToken option" where
  "load_access_token super_load_access_token tok =
     (case super_load_access_token tok of
        Inl e \<Rightarrow> Inl e
      | Inr result \<Rightarrow> Inr result)"

subsection \<open>The superclass\<close>

text \<open>Modelled from the spec: \<open>JWTVerifier._extract_scopes\<close> of the third-party fastmcp
  package, the superclass method that \<open>AzureJWTVerifier._extract_scopes\<close> calls and that
  is not among the sources. Spec section 4.3, step 5: the scope claim is a
  space-delimited string; a token without such a claim has no scopes.
\<close>

definition JWTVerifier_extract_scopes :: "py_dict \<Rightarrow> string list" where
  "JWTVerifier_extract_scopes cl =
     (case cl ''scp'' of Some (JStr s) \<Rightarrow> py_split s | _ \<Rightarrow> [])"

fun issuer_list :: "issuer_arg \<Rightarrow> string list" where
  "issuer_list (IssuerStr i) = [i]"
| "issuer_list (IssuerList is) = is"

text \<open>Modelled from the spec: \<open>JWTVerifier.load_access_token\<close> of the third-party fastmcp
  package, the superclass method that \<open>AzureJWTVerifier.load_access_token\<close> calls and
  that is not among the sources. Spec section 4.3, signature-verified strategy, steps in
  order: (1) signature, (2) expiry against the current time with no grace window,
  (3) audience equal to the configured value, (4) issuer in the configured allow-list,
  (5) the scopes, extracted by the verifier's own \<open>_extract_scopes\<close> (the parameter
  \<open>extract\<close>), form a superset of the required scopes. Any failed step yields
  \<open>None\<close>; on success the Principal carries the extracted scope set.
\<close>

definition JWTVerifier_load_access_token ::
  "jwt_library \<Rightarrow> (py_dict \<Rightarrow> string list) \<Rightarrow> 'a JWTVerifier_scheme \<Rightarrow> string
     \<Rightarrow> AccessToken option" where
  "JWTVerifier_load_access_token lib extract self tok =
     (if \<not> signature_valid lib tok then None
      else case unverified_payload lib tok of
          None \<Rightarrow> None
        | Some cl \<Rightarrow>
            if exp_rejected cl (current_time lib) then None
            else if cl ''aud'' \<noteq> Some (JStr (jwt_audience self)) then None
            else if \<not> issuer_allowed cl (issuer_list (issuer self)) then None
            else (let scs = extract cl in
                  if \<not> set (required_scopes self) \<subseteq> set scs then None
                  else Some \<lparr>token = tok, client_id = client_id_of lib cl,
                         scopes = set scs, expires_at = dict_get cl ''exp'', claims = cl\<rparr>))"

text \<open>The verifier of src/example-obo/server.py on top of that superclass.\<close>

definition azure_load_access_token ::
  "jwt_library \<Rightarrow> AzureJWTVerifier \<Rightarrow> string \<Rightarrow> exn + AccessToken option" where
  "azure_load_access_token lib self tok =
     load_access_token
       (\<lambda>t. Inr (JWTVerifier_load_access_token lib
                   (extract_scopes JWTVerifier_extract_scopes self) self t)) tok"

section \<open>src/example-obo/server.py: the on-behalf-of exchange\<close>

text \<open>
  The text an f-string puts in for a value: a string as it is, \<open>None\<close>, \<open>True\<close>,
  \<open>False\<close>; for numbers and containers Python's own rendering is the parameter
  \<open>render\<close>.
\<close>

fun py_str :: "(json \<Rightarrow> string) \<Rightarrow> json \<Rightarrow> string" where
  "py_str render (JStr s) = s"
| "py_str render JNull = ''None''"
| "py_str render (JBool b) = (if b then ''True'' else ''False'')"
| "py_str render v = render v"

text \<open>
  \<open>_obo_exchange\<close>. \<open>acquire_token_on_behalf_of\<close> is the msal call with its
  \<open>user_assertion\<close> and \<open>scopes\<close>; an exception of that call passes through.
\<close>

definition obo_exchange ::
  "(string \<Rightarrow> string list \<Rightarrow> exn + py_dict) \<Rightarrow> (json \<Rightarrow> string) \<Rightarrow> string \<Rightarrow> exn + json" where
  "obo_exchange acquire_token_on_behalf_of render assertion =
     (case acquire_token_on_behalf_of assertion [''https://graph.microsoft.com/.default''] of
        Inl e \<Rightarrow> Inl e
      | Inr result \<Rightarrow>
          (case result ''access_token'' of
             None \<Rightarrow>
               (let error = dict_get result ''error'';
                    error_desc = dict_get result ''error_description''
                in Inl (RuntimeError (''OBO token exchange failed: '' @ py_str render error
                          @ '' '' @ py_str render error_desc)))
           | Some access_token \<Rightarrow> Inr access_token))"

section \<open>src/example-obo/server.py: the shared downstream client\<close>

text \<open>
  The module-level \<open>_graph_client\<close> with what happens to it: a client is a handle
  number, \<open>constructed\<close> counts the calls of \<open>httpx.AsyncClient(timeout=30)\<close> (and
  numbers the next handle), \<open>releases\<close> lists the \<open>aclose()\<close> calls in order, each
  either handed to the running loop with \<open>create_task\<close> or run to completion with
  \<open>asyncio.run\<close>. A failure inside \<open>aclose()\<close> itself is not modelled.
\<close>

datatype loop_state = NoLoop | LoopIdle | LoopRunning

datatype release = Scheduled nat | Ran nat

record client_state =
  graph_client :: "nat option"
  constructed :: nat
  releases :: "release list"

definition initial_client_state :: client_state where
  "initial_client_state = \<lparr>graph_client = None, constructed = 0, releases = []\<rparr>"

definition get_graph_client :: "client_state \<Rightarrow> nat \<times> client_state" where
  "get_graph_client s =
     (case graph_client s of
        None \<Rightarrow>
          (let h = constructed s
           in (h, s\<lparr>graph_client := Some h, constructed := Suc (constructed s)\<rparr>))
      | Some h \<Rightarrow> (h, s))"

text \<open>
  \<open>_close_graph_client\<close>; \<open>loop\<close> is what \<open>asyncio.get_event_loop()\<close> finds
  (\<open>NoLoop\<close> when it raises \<open>RuntimeError\<close>).
\<close>

definition close_graph_client :: "loop_state \<Rightarrow> client_state \<Rightarrow> client_state" where
  "close_graph_client loop s =
     (case graph_client s of
        None \<Rightarrow> s
      | Some h \<Rightarrow>
          (if loop = LoopRunning
           then s\<lparr>releases := releases s @ [Scheduled h], graph_client := None\<rparr>
           else s\<lparr>releases := releases s @ [Ran h], graph_client := None\<rparr>))"

text \<open>A run of the process: any sequence of calls of the two functions.\<close>

datatype client_op = Get | Close loop_state

fun run_ops :: "client_op list \<Rightarrow> client_state \<Rightarrow> client_state" where
  "run_ops [] s = s"
| "run_ops (Get # ops) s = run_ops ops (snd (get_graph_client s))"
| "run_ops (Close loop # ops) s = run_ops ops (close_graph_client loop s)"

text \<open>The handles that the calls of \<open>_get_graph_client\<close> in a run return, in order.\<close>

fun returned_handles :: "client_op list \<Rightarrow> client_state \<Rightarrow> nat list" where
  "returned_handles [] s = []"
| "returned_handles (Get # ops) s =
     fst (get_graph_client s) # returned_handles ops (snd (get_graph_client s))"
| "returned_handles (Close loop # ops) s = returned_handles ops (close_graph_client loop s)"

fun released_handle :: "release \<Rightarrow> nat" where
  "released_handle (Scheduled h) = h"
| "released_handle (Ran h) = h"

text \<open>
  Every client ever constructed is either the current one or has been released, once:
  the released handles are distinct, all were constructed, and the current handle is not
  among them.
\<close>

definition client_inv :: "client_state \<Rightarrow> bool" where
  "client_inv s =
     (distinct (map released_handle (releases s))
      \<and> list_all (\<lambda>r. released_handle r < constructed s) (releases s)
      \<and> (case graph_client s of
           None \<Rightarrow> length (releases s) = constructed s
         | Some h \<Rightarrow> h < constructed s \<and> h \<notin> set (map released_handle (releases s))
               \<and> Suc (length (releases s)) = constructed s))"

section \<open>Concrete tokens, responses and states\<close>

text \<open>
  The claims of the spec's scenario 1 (issued for tenant \<open>T\<close>, both Graph scopes,
  expiring 3600 seconds after the current time 1000) and its variants: scenario 2 with
  one scope only, the scopes as a JSON array, and expired by one second.
\<close>

definition scenario1_claims :: py_dict where
  "scenario1_claims =
     [''iss'' \<mapsto> JStr ''https://sts.windows.net/T/'',
      ''aud'' \<mapsto> JStr ''00000003-0000-0000-c000-000000000000'',
      ''scp'' \<mapsto> JStr ''User.Read Mail.Read'',
      ''exp'' \<mapsto> JInt 4600]"

definition scenario2_claims :: py_dict where
  "scenario2_claims = scenario1_claims(''scp'' \<mapsto> JStr ''User.Read'')"

definition array_scp_claims :: py_dict where
  "array_scp_claims =
     scenario1_claims(''scp'' \<mapsto> JList [JStr ''User.Read'', JStr ''Mail.Read''])"

definition expired_claims :: py_dict where
  "expired_claims = scenario1_claims(''exp'' \<mapsto> JInt 999)"

text \<open>A token for the on-behalf-of server with client id \<open>X\<close>, carrying the short scope.\<close>

definition obo_claims :: py_dict where
  "obo_claims =
     [''iss'' \<mapsto> JStr ''https://login.example/T/v2.0'',
      ''aud'' \<mapsto> JStr ''X'',
      ''scp'' \<mapsto> JStr ''access_as_user'',
      ''exp'' \<mapsto> JInt 4600]"

text \<open>
  A library environment that decodes five token strings to these claims, at time 1000.
  Only the fifth token has a valid signature.
\<close>

definition example_library :: jwt_library where
  "example_library =
     \<lparr>unverified_payload =
        map_of [(''t1'', scenario1_claims), (''t2'', scenario2_claims),
                (''t3'', array_scp_claims), (''t4'', expired_claims), (''t5'', obo_claims)],
      signature_valid = (\<lambda>t. t = ''t5''),
      current_time = 1000,
      client_id_of = (\<lambda>cl. dict_get cl ''azp'')\<rparr>"

definition example_obo_verifier :: AzureJWTVerifier where
  "example_obo_verifier =
     token_verifier_obo ''https://login.example/T/keys'' ''https://login.example/T/v2.0'' ''X''"

definition two_scope_verifier :: AzureJWTVerifier where
  "two_scope_verifier =
     example_obo_verifier\<lparr>required_scopes := [''api://X/access_as_user'', ''api://X/admin'']\<rparr>"

text \<open>Responses of the token endpoint, and a rendering that no example needs.\<close>

definition render_unused :: "json \<Rightarrow> string" where
  "render_unused v = ''?''"

definition invalid_grant_result :: py_dict where
  "invalid_grant_result =
     [''error'' \<mapsto> JStr ''invalid_grant'', ''error_description'' \<mapsto> JStr ''AADSTS50013'']"

definition invalid_grant_response :: "string \<Rightarrow> string list \<Rightarrow> exn + py_dict" where
  "invalid_grant_response assertion scs = Inr invalid_grant_result"

definition empty_response :: "string \<Rightarrow> string list \<Rightarrow> exn + py_dict" where
  "empty_response assertion scs = Inr Map.empty"

definition token_and_error_result :: py_dict where
  "token_and_error_result = invalid_grant_result(''access_token'' \<mapsto> JStr ''graph-token'')"

definition token_and_error_response :: "string \<Rightarrow> string list \<Rightarrow> exn + py_dict" where
  "token_and_error_response assertion scs = Inr token_and_error_result"

definition live_client_state :: client_state where
  "live_client_state = \<lparr>graph_client = Some 0, constructed = 1, releases = []\<rparr>"

section \<open>Evaluation of the concrete examples\<close>

lemma py_split_two_scopes: "py_split ''User.Read Mail.Read'' = [''User.Read'', ''Mail.Read'']"
  by (simp add: py_split_def py_isspace_def)

lemma py_split_one_scope: "py_split ''User.Read'' = [''User.Read'']"
  by (simp add: py_split_def py_isspace_def)

lemma py_split_obo_scope: "py_split ''access_as_user'' = [''access_as_user'']"
  by (simp add: py_split_def py_isspace_def)

lemma token_scopes_scenario1:
  "token_scopes scenario1_claims = Inr {''User.Read'', ''Mail.Read''}"
  by (simp add: token_scopes_def dict_get_default_def scenario1_claims_def py_split_two_scopes)

lemma token_scopes_scenario2: "token_scopes scenario2_claims = Inr {''User.Read''}"
  by (simp add: token_scopes_def dict_get_default_def scenario2_claims_def py_split_one_scope)

lemma graph_verifier_fields:
  "audience (token_verifier_graph ''T'') = ''00000003-0000-0000-c000-000000000000''"
  "issuers (token_verifier_graph ''T'') = [''https://sts.windows.net/T/'']"
  "required_scopes (token_verifier_graph ''T'') = [''User.Read'', ''Mail.Read'']"
  by (simp_all add: token_verifier_graph_def GraphTokenVerifier_init_def)

lemma decode_scenario1:
  "jwt_decode example_library (decode_call (token_verifier_graph ''T'') ''t1'')
     = Inr scenario1_claims"
  by (simp add: jwt_decode_def decode_call_def example_library_def graph_verifier_fields
      exp_rejected_def issuer_allowed_def scenario1_claims_def)

lemma decode_scenario2:
  "jwt_decode example_library (decode_call (token_verifier_graph ''T'') ''t2'')
     = Inr scenario2_claims"
  by (simp add: jwt_decode_def decode_call_def example_library_def graph_verifier_fields
      exp_rejected_def issuer_allowed_def scenario2_claims_def scenario1_claims_def)

lemma decode_array_scp:
  "jwt_decode example_library (decode_call (token_verifier_graph ''T'') ''t3'')
     = Inr array_scp_claims"
  by (simp add: jwt_decode_def decode_call_def example_library_def graph_verifier_fields
      exp_rejected_def issuer_allowed_def array_scp_claims_def scenario1_claims_def)

lemma scenario1_accepted:
  "verify_token (jwt_decode example_library) (token_verifier_graph ''T'') ''t1'' =
     Inr (Some \<lparr>token = ''t1'', client_id = JStr ''unknown'',
                scopes = {''User.Read'', ''Mail.Read''}, expires_at = JInt 4600,
                claims = scenario1_claims\<rparr>)"
proof -
  have "scenario1_claims ''exp'' = Some (JInt 4600)"
    "dict_get scenario1_claims ''appid'' = JNull" "dict_get scenario1_claims ''azp'' = JNull"
    by (simp_all add: scenario1_claims_def dict_get_def)
  then show ?thesis
    by (simp add: verify_token_def decode_scenario1 token_scopes_scenario1
        graph_verifier_fields py_or_def)
qed

section \<open>The claims-only verifier: properties\<close>

text \<open>Whatever \<open>PyJWTError\<close> the decoder raises, the verifier returns \<open>None\<close>.\<close>

lemma verify_token_PyJWTError:
  "decode (decode_call self tok) = Inl (PyJWTError m) \<Longrightarrow> verify_token decode self tok = Inr None"
  by (simp add: verify_token_def)

text \<open>A returned Principal carries the scope set read from the decoded claims.\<close>

lemma verify_token_Some:
  assumes "verify_token decode self tok = Inr (Some p)"
  shows "\<exists>cl. decode (decode_call self tok) = Inr cl \<and> token_scopes cl = Inr (scopes p)"
proof (cases "decode (decode_call self tok)")
  case (Inl e)
  with assms show ?thesis
    by (cases e) (simp_all add: verify_token_def split: if_splits)
next
  case (Inr cl)
  show ?thesis
  proof (cases "token_scopes cl")
    case (Inl e)
    with Inr assms show ?thesis
      by (simp add: verify_token_def split: if_splits)
  next
    case ts: (Inr ts)
    with Inr assms have "scopes p = ts"
      by (simp add: verify_token_def Let_def split: if_splits option.splits) auto
    with Inr ts show ?thesis by simp
  qed
qed

text \<open>
  With the decoder of the spec, nothing but the \<open>AttributeError\<close> of a scope claim that
  is not a string leaves \<open>verify_token\<close>: the required \<open>exp\<close> is present whenever the
  decoder returns.
\<close>

lemma verify_token_raises_only_AttributeError:
  "verify_token (jwt_decode lib) self tok = Inl e \<Longrightarrow> e = AttributeError"
  by (auto simp add: verify_token_def jwt_decode_def decode_call_def Let_def
      token_scopes_def split: if_splits option.splits sum.splits exn.splits json.splits)

text \<open>Every scope claim that is present and not a string makes an accepted token raise.\<close>

lemma verify_token_non_string_scp:
  assumes "tok \<noteq> []"
    and "decode (decode_call self tok) = Inr cl"
    and "cl ''scp'' = Some v"
    and "\<And>s. v \<noteq> JStr s"
  shows "verify_token decode self tok = Inl AttributeError"
proof -
  from assms(3,4) have "token_scopes cl = Inl AttributeError"
    by (cases v) (auto simp add: token_scopes_def dict_get_default_def)
  with assms(1,2) show ?thesis
    by (simp add: verify_token_def)
qed

text \<open>
  Claim C1: verification never raises past its boundary; on any validation failure it
  returns \<open>None\<close>, on success a Principal. The claims-only verifier does not meet this:
  the token \<open>t3\<close> is well formed, not expired, has the configured audience and issuer
  and carries both required scopes, but as a JSON array; \<open>verify_token\<close> raises
  \<open>AttributeError\<close> on it instead of returning.
\<close>

theorem verify_token_array_scp_raises:
  "verify_token (jwt_decode example_library) (token_verifier_graph ''T'') ''t3''
     = Inl AttributeError"
  by (simp add: verify_token_def decode_array_scp token_scopes_def dict_get_default_def
      array_scp_claims_def)

text \<open>
  Claim C9: on the empty token string \<open>verify_token\<close> returns \<open>None\<close> at once. The
  result is the same for every decoder, also one that would raise, and for every
  configuration: neither is consulted.
\<close>

theorem verify_token_empty: "verify_token decode self [] = Inr None"
  by (simp add: verify_token_def)

text \<open>
  Claim C10: a non-empty token that the decoder accepts (expiry, audience and issuer
  pass, so \<open>exp\<close> is present) and whose scopes include all required ones, but which has
  neither \<open>appid\<close> nor \<open>azp\<close>, yields a Principal with client id \<open>"unknown"\<close>.
\<close>

theorem verify_token_unknown_client:
  assumes "tok \<noteq> []"
    and "decode (decode_call self tok) = Inr cl"
    and "token_scopes cl = Inr ts"
    and "set (required_scopes self) \<subseteq> ts"
    and "cl ''exp'' = Some e"
    and "cl ''appid'' = None"
    and "cl ''azp'' = None"
  shows "verify_token decode self tok =
     Inr (Some \<lparr>token = tok, client_id = JStr ''unknown'', scopes = ts,
                expires_at = e, claims = cl\<rparr>)"
  using assms by (simp add: verify_token_def dict_get_def py_or_def)

theorem verify_token_unknown_client_witness:
  "''t1'' \<noteq> []
   \<and> jwt_decode example_library (decode_call (token_verifier_graph ''T'') ''t1'')
       = Inr scenario1_claims
   \<and> token_scopes scenario1_claims = Inr {''User.Read'', ''Mail.Read''}
   \<and> set (required_scopes (token_verifier_graph ''T'')) \<subseteq> {''User.Read'', ''Mail.Read''}
   \<and> scenario1_claims ''exp'' = Some (JInt 4600)
   \<and> scenario1_claims ''appid'' = None
   \<and> scenario1_claims ''azp'' = None
   \<and> verify_token (jwt_decode example_library) (token_verifier_graph ''T'') ''t1'' =
       Inr (Some \<lparr>token = ''t1'', client_id = JStr ''unknown'',
                  scopes = {''User.Read'', ''Mail.Read''}, expires_at = JInt 4600,
                  claims = scenario1_claims\<rparr>)"
proof -
  have h1: "''t1'' \<noteq> []" by simp
  have h4: "set (required_scopes (token_verifier_graph ''T'')) \<subseteq> {''User.Read'', ''Mail.Read''}"
    by (simp add: graph_verifier_fields)
  have h5: "scenario1_claims ''exp'' = Some (JInt 4600)"
    by (simp add: scenario1_claims_def)
  have h6: "scenario1_claims ''appid'' = None" by (simp add: scenario1_claims_def)
  have h7: "scenario1_claims ''azp'' = None" by (simp add: scenario1_claims_def)
  note r = verify_token_unknown_client
    [where decode = "jwt_decode example_library" and self = "token_verifier_graph ''T''"
       and tok = "''t1''", OF h1 decode_scenario1 token_scopes_scenario1 h4 h5 h6 h7]
  show ?thesis
    using r h1 decode_scenario1 token_scopes_scenario1 h4 h5 h6 h7 by simp
qed

text \<open>
  Claim C4: a token whose \<open>exp\<close> is strictly less than the current time is rejected,
  with no grace window. \<open>verify_token\<close> asks the decoder to check expiry
  (\<open>verify_exp\<close>) and passes no leeway; the comparison itself is the decoder's.
\<close>

theorem verify_token_expired:
  assumes "unverified_payload lib tok = Some cl"
    and "cl ''exp'' = Some (JInt e)"
    and "e < current_time lib"
  shows "verify_token (jwt_decode lib) self tok = Inr None"
  using assms
  by (simp add: verify_token_def jwt_decode_def decode_call_def exp_rejected_def)

theorem verify_token_expired_witness:
  "unverified_payload example_library ''t4'' = Some expired_claims
   \<and> expired_claims ''exp'' = Some (JInt (current_time example_library - 1))
   \<and> current_time example_library - 1 < current_time example_library
   \<and> verify_token (jwt_decode example_library) (token_verifier_graph ''T'') ''t4'' = Inr None"
proof -
  have h1: "unverified_payload example_library ''t4'' = Some expired_claims"
    by (simp add: example_library_def)
  have h2: "expired_claims ''exp'' = Some (JInt (current_time example_library - 1))"
    by (simp add: expired_claims_def example_library_def)
  have h3: "current_time example_library - 1 < current_time example_library"
    by simp
  show ?thesis
    using verify_token_expired [OF h1 h2 h3, of "token_verifier_graph ''T''"] h1 h2 h3
    by simp
qed

section \<open>The signature-verified verifier: properties\<close>

text \<open>\<open>_extract_scopes\<close> applies \<open>normalize_scope\<close> with the verifier's prefix to every scope.\<close>

lemma extract_scopes_normalize_scope:
  "extract_scopes base self cl = map (\<lambda>s. normalize_scope s (scope_prefix self)) (base cl)"
  by (simp add: extract_scopes_def normalize_scope_def Let_def)

lemma normalize_scope_qualified: "ns \<noteq> [] \<Longrightarrow> CHR ''/'' \<in> set (normalize_scope s ns)"
  by (simp add: normalize_scope_def)

lemma JWTVerifier_load_Some:
  assumes "JWTVerifier_load_access_token lib extract self tok = Some p"
  shows "\<exists>cl. unverified_payload lib tok = Some cl \<and> scopes p = set (extract cl)"
proof (cases "unverified_payload lib tok")
  case None
  with assms show ?thesis
    by (simp add: JWTVerifier_load_access_token_def split: if_splits)
next
  case (Some cl)
  with assms have "scopes p = set (extract cl)"
    by (simp add: JWTVerifier_load_access_token_def Let_def split: if_splits) auto
  with Some show ?thesis by simp
qed

text \<open>On top of the superclass of the spec, the signature-verified verifier always returns.\<close>

lemma azure_load_access_token_returns:
  "\<exists>r. azure_load_access_token lib self tok = Inr r"
  by (simp add: azure_load_access_token_def load_access_token_def)

lemma obo_verifier_fields:
  "required_scopes example_obo_verifier = [''api://X/access_as_user'']"
  "scope_prefix example_obo_verifier = ''api://X''"
  "jwt_audience example_obo_verifier = ''X''"
  "issuer example_obo_verifier = IssuerStr ''https://login.example/T/v2.0''"
  by (simp_all add: example_obo_verifier_def token_verifier_obo_def identifier_uri_def)

lemma two_scope_verifier_fields:
  "required_scopes two_scope_verifier = [''api://X/access_as_user'', ''api://X/admin'']"
  "scope_prefix two_scope_verifier = ''api://X''"
  by (simp_all add: two_scope_verifier_def obo_verifier_fields)

lemma extract_obo_claims:
  "scope_prefix self = ''api://X'' \<Longrightarrow>
   extract_scopes JWTVerifier_extract_scopes self obo_claims = [''api://X/access_as_user'']"
  by (simp add: extract_scopes_def JWTVerifier_extract_scopes_def obo_claims_def
      py_split_obo_scope)

lemma obo_token_accepted:
  "azure_load_access_token example_library example_obo_verifier ''t5'' =
     Inr (Some \<lparr>token = ''t5'', client_id = JNull, scopes = {''api://X/access_as_user''},
                expires_at = JInt 4600, claims = obo_claims\<rparr>)"
proof -
  have "unverified_payload example_library ''t5'' = Some obo_claims"
    "signature_valid example_library ''t5''" "current_time example_library = 1000"
    "client_id_of example_library obo_claims = JNull"
    by (simp_all add: example_library_def dict_get_def obo_claims_def)
  moreover have "obo_claims ''exp'' = Some (JInt 4600)" "obo_claims ''aud'' = Some (JStr ''X'')"
    "obo_claims ''iss'' = Some (JStr ''https://login.example/T/v2.0'')"
    by (simp_all add: obo_claims_def)
  ultimately show ?thesis
    by (simp add: azure_load_access_token_def load_access_token_def
        JWTVerifier_load_access_token_def exp_rejected_def issuer_allowed_def
        obo_verifier_fields extract_obo_claims dict_get_def)
qed

text \<open>
  Claim C3: a token whose scope set is not a superset of the required scopes is
  rejected, in both strategies: by \<open>verify_token\<close> when the scope set read from the
  decoded claims misses a required scope, and by the signature-verified verifier when
  the scopes that \<open>_extract_scopes\<close> returns, normalized, miss one.
\<close>

theorem missing_scope_rejected:
  "(decode (decode_call self tok) = Inr cl \<and> token_scopes cl = Inr ts
       \<and> \<not> set (required_scopes self) \<subseteq> ts
     \<longrightarrow> verify_token decode self tok = Inr None)
   \<and> (unverified_payload lib tok' = Some cl'
       \<and> \<not> set (required_scopes aself)
             \<subseteq> set (extract_scopes JWTVerifier_extract_scopes aself cl')
     \<longrightarrow> azure_load_access_token lib aself tok' = Inr None)"
proof (intro conjI impI)
  assume "decode (decode_call self tok) = Inr cl \<and> token_scopes cl = Inr ts
       \<and> \<not> set (required_scopes self) \<subseteq> ts"
  then show "verify_token decode self tok = Inr None"
    by (simp add: verify_token_def)
next
  assume "unverified_payload lib tok' = Some cl'
       \<and> \<not> set (required_scopes aself)
             \<subseteq> set (extract_scopes JWTVerifier_extract_scopes aself cl')"
  then show "azure_load_access_token lib aself tok' = Inr None"
    by (simp add: azure_load_access_token_def load_access_token_def
        JWTVerifier_load_access_token_def Let_def)
qed

text \<open>
  The instance of the claim: scopes \<open>{A}\<close> where \<open>{A, B}\<close> is required. Scenario 2 of
  the spec for the claims-only verifier, and the token with \<open>access_as_user\<close> for a
  signature-verified verifier that also requires \<open>admin\<close>.
\<close>

theorem missing_scope_rejected_witness:
  "(jwt_decode example_library (decode_call (token_verifier_graph ''T'') ''t2'')
        = Inr scenario2_claims
      \<and> token_scopes scenario2_claims = Inr {''User.Read''}
      \<and> \<not> set (required_scopes (token_verifier_graph ''T'')) \<subseteq> {''User.Read''})
   \<and> verify_token (jwt_decode example_library) (token_verifier_graph ''T'') ''t2'' = Inr None
   \<and> (unverified_payload example_library ''t5'' = Some obo_claims
      \<and> \<not> set (required_scopes two_scope_verifier)
            \<subseteq> set (extract_scopes JWTVerifier_extract_scopes two_scope_verifier obo_claims))
   \<and> azure_load_access_token example_library two_scope_verifier ''t5'' = Inr None"
proof -
  have h1: "jwt_decode example_library (decode_call (token_verifier_graph ''T'') ''t2'')
        = Inr scenario2_claims
      \<and> token_scopes scenario2_claims = Inr {''User.Read''}
      \<and> \<not> set (required_scopes (token_verifier_graph ''T'')) \<subseteq> {''User.Read''}"
    by (simp add: decode_scenario2 token_scopes_scenario2 graph_verifier_fields)
  have h2: "unverified_payload example_library ''t5'' = Some obo_claims
      \<and> \<not> set (required_scopes two_scope_verifier)
            \<subseteq> set (extract_scopes JWTVerifier_extract_scopes two_scope_verifier obo_claims)"
    by (simp add: example_library_def two_scope_verifier_fields extract_obo_claims)
  note r = missing_scope_rejected
    [where decode = "jwt_decode example_library" and self = "token_verifier_graph ''T''"
       and tok = "''t2''" and cl = scenario2_claims and ts = "{''User.Read''}"
       and lib = example_library and tok' = "''t5''" and cl' = obo_claims
       and aself = two_scope_verifier]
  from r h1 h2 show ?thesis by blast
qed

text \<open>
  Claim C5: normalization is total and idempotent; a scope without the separator
  \<open>/\<close> is prefixed with the namespace (with the separator after a non-empty
  namespace; under the empty namespace \<open>_extract_scopes\<close> leaves every scope as it
  is), and a scope that has the separator is returned unchanged. \<open>normalize_scope\<close> is a
  total function of two strings, and it is what \<open>_extract_scopes\<close> applies to each
  scope.
\<close>

theorem normalize_idempotent:
  "normalize_scope (normalize_scope s ns) ns = normalize_scope s ns
   \<and> (CHR ''/'' \<notin> set s \<longrightarrow> prefix ns (normalize_scope s ns))
   \<and> (CHR ''/'' \<notin> set s \<longrightarrow> ns \<noteq> [] \<longrightarrow> normalize_scope s ns = ns @ ''/'' @ s)
   \<and> (CHR ''/'' \<in> set s \<longrightarrow> normalize_scope s ns = s)
   \<and> extract_scopes base self cl = map (\<lambda>x. normalize_scope x (scope_prefix self)) (base cl)"
  by (simp add: normalize_scope_def extract_scopes_normalize_scope)

text \<open>Scenario 4 of the spec, both ways.\<close>

theorem normalize_idempotent_witness:
  "CHR ''/'' \<notin> set ''access_as_user'' \<and> ''api://X'' \<noteq> []
   \<and> normalize_scope ''access_as_user'' ''api://X'' = ''api://X/access_as_user''
   \<and> CHR ''/'' \<in> set ''api://X/access_as_user''
   \<and> normalize_scope ''api://X/access_as_user'' ''api://X'' = ''api://X/access_as_user''"
proof -
  have h1: "CHR ''/'' \<notin> set ''access_as_user''" by simp
  have h2: "''api://X'' \<noteq> []" by simp
  have h3: "CHR ''/'' \<in> set ''api://X/access_as_user''" by simp
  from normalize_idempotent
    [where s = "''access_as_user''" and ns = "''api://X''"
       and base = JWTVerifier_extract_scopes and self = example_obo_verifier
       and cl = obo_claims] h1 h2
  have a: "normalize_scope ''access_as_user'' ''api://X'' = ''api://X/access_as_user''" by simp
  from normalize_idempotent
    [where s = "''api://X/access_as_user''" and ns = "''api://X''"
       and base = JWTVerifier_extract_scopes and self = example_obo_verifier
       and cl = obo_claims] h3
  have b: "normalize_scope ''api://X/access_as_user'' ''api://X'' = ''api://X/access_as_user''"
    by blast
  from a b h1 h2 h3 show ?thesis by blast
qed

text \<open>
  Claim C6, as stated: under either strategy the Principal's scope set reflects
  normalization, every short-form scope of the token appearing qualified. The
  claims-only verifier has no namespace and does not normalize_scope: for the token of
  scenario 1 its Principal carries \<open>User.Read\<close>, which has no separator.
\<close>

theorem principal_scopes_counterexample:
  "verify_token (jwt_decode example_library) (token_verifier_graph ''T'') ''t1'' =
     Inr (Some \<lparr>token = ''t1'', client_id = JStr ''unknown'',
                scopes = {''User.Read'', ''Mail.Read''}, expires_at = JInt 4600,
                claims = scenario1_claims\<rparr>)
   \<and> ''User.Read'' \<in> {''User.Read'', ''Mail.Read''}
   \<and> CHR ''/'' \<notin> set ''User.Read''"
  using scenario1_accepted by simp

text \<open>
  Claim C6, amended: a Principal of the signature-verified verifier carries exactly the
  normalized scopes of the token, so with a non-empty prefix each of its scopes is
  qualified; a Principal of the claims-only verifier carries the token's scopes as they
  stand.
\<close>

theorem principal_scopes:
  "(azure_load_access_token lib aself tok = Inr (Some p) \<longrightarrow>
      (\<exists>cl. unverified_payload lib tok = Some cl
         \<and> scopes p = (\<lambda>s. normalize_scope s (scope_prefix aself)) ` set (JWTVerifier_extract_scopes cl))
      \<and> (scope_prefix aself \<noteq> [] \<longrightarrow> (\<forall>s\<in>scopes p. CHR ''/'' \<in> set s)))
   \<and> (verify_token decode self tok' = Inr (Some p') \<longrightarrow>
      (\<exists>cl. decode (decode_call self tok') = Inr cl \<and> token_scopes cl = Inr (scopes p')))"
proof (intro conjI impI)
  assume "azure_load_access_token lib aself tok = Inr (Some p)"
  then have "JWTVerifier_load_access_token lib
      (extract_scopes JWTVerifier_extract_scopes aself) aself tok = Some p"
    by (simp add: azure_load_access_token_def load_access_token_def)
  from JWTVerifier_load_Some [OF this]
  obtain cl where cl: "unverified_payload lib tok = Some cl"
    and sc: "scopes p = set (extract_scopes JWTVerifier_extract_scopes aself cl)" by blast
  from sc have sc': "scopes p
      = (\<lambda>s. normalize_scope s (scope_prefix aself)) ` set (JWTVerifier_extract_scopes cl)"
    by (simp add: extract_scopes_normalize_scope)
  with cl show "\<exists>cl. unverified_payload lib tok = Some cl
      \<and> scopes p = (\<lambda>s. normalize_scope s (scope_prefix aself)) ` set (JWTVerifier_extract_scopes cl)"
    by blast
  assume "scope_prefix aself \<noteq> []"
  with sc' show "\<forall>s\<in>scopes p. CHR ''/'' \<in> set s"
    by (auto simp add: normalize_scope_qualified)
next
  assume "verify_token decode self tok' = Inr (Some p')"
  then show "\<exists>cl. decode (decode_call self tok') = Inr cl \<and> token_scopes cl = Inr (scopes p')"
    by (rule verify_token_Some)
qed

theorem principal_scopes_witness:
  "azure_load_access_token example_library example_obo_verifier ''t5'' =
     Inr (Some \<lparr>token = ''t5'', client_id = JNull, scopes = {''api://X/access_as_user''},
                expires_at = JInt 4600, claims = obo_claims\<rparr>)
   \<and> scope_prefix example_obo_verifier \<noteq> []
   \<and> CHR ''/'' \<in> set ''api://X/access_as_user''
   \<and> verify_token (jwt_decode example_library) (token_verifier_graph ''T'') ''t1'' =
       Inr (Some \<lparr>token = ''t1'', client_id = JStr ''unknown'',
                  scopes = {''User.Read'', ''Mail.Read''}, expires_at = JInt 4600,
                  claims = scenario1_claims\<rparr>)
   \<and> (\<exists>cl. jwt_decode example_library (decode_call (token_verifier_graph ''T'') ''t1'') = Inr cl
         \<and> token_scopes cl = Inr {''User.Read'', ''Mail.Read''})"
proof -
  have h: "scope_prefix example_obo_verifier \<noteq> []"
    by (simp add: obo_verifier_fields)
  note r = principal_scopes
    [where lib = example_library and aself = example_obo_verifier and tok = "''t5''"
       and p = "\<lparr>token = ''t5'', client_id = JNull, scopes = {''api://X/access_as_user''},
                expires_at = JInt 4600, claims = obo_claims\<rparr>"
       and decode = "jwt_decode example_library" and self = "token_verifier_graph ''T''"
       and tok' = "''t1''"
       and p' = "\<lparr>token = ''t1'', client_id = JStr ''unknown'',
                  scopes = {''User.Read'', ''Mail.Read''}, expires_at = JInt 4600,
                  claims = scenario1_claims\<rparr>"]
  from r obo_token_accepted h
  have a: "CHR ''/'' \<in> set ''api://X/access_as_user''" by simp
  from r scenario1_accepted
  have b: "\<exists>cl. jwt_decode example_library (decode_call (token_verifier_graph ''T'') ''t1'') = Inr cl
         \<and> token_scopes cl = Inr {''User.Read'', ''Mail.Read''}" by simp
  from a b h obo_token_accepted scenario1_accepted show ?thesis by blast
qed

section \<open>The on-behalf-of exchange: properties\<close>

text \<open>
  Claim C2, as stated: when the response lacks an access token, the exchange returns a
  failure value carrying the provider's code and description, or a generic code when
  they are absent, and does not raise. \<open>_obo_exchange\<close> raises: for the response of
  scenario 3 the outcome is a \<open>RuntimeError\<close>, and for a response with no error
  fields the message has \<open>None\<close> in their place, no generic code.
\<close>

theorem obo_exchange_failure_counterexample:
  "obo_exchange invalid_grant_response render_unused ''assertion'' =
      Inl (RuntimeError ''OBO token exchange failed: invalid_grant AADSTS50013'')
   \<and> obo_exchange empty_response render_unused ''assertion'' =
      Inl (RuntimeError ''OBO token exchange failed: None None'')"
  by (simp add: obo_exchange_def invalid_grant_response_def invalid_grant_result_def
      empty_response_def dict_get_def)

text \<open>
  Claim C2, amended: when the response lacks an access token, with an error field or
  without, \<open>_obo_exchange\<close> raises a \<open>RuntimeError\<close> whose message is
  \<open>OBO token exchange failed:\<close> followed by the provider's error code and its
  description, each replaced by the text \<open>None\<close> when absent.
\<close>

theorem obo_exchange_failure_raises:
  assumes "acquire assertion [''https://graph.microsoft.com/.default''] = Inr result"
    and "result ''access_token'' = None"
  shows "obo_exchange acquire render assertion =
           Inl (RuntimeError (''OBO token exchange failed: ''
             @ (case result ''error'' of
                  None \<Rightarrow> ''None'' | Some (JStr c) \<Rightarrow> c | Some v \<Rightarrow> py_str render v)
             @ '' ''
             @ (case result ''error_description'' of
                  None \<Rightarrow> ''None'' | Some (JStr d) \<Rightarrow> d | Some v \<Rightarrow> py_str render v)))"
  using assms
  by (simp add: obo_exchange_def dict_get_def split: option.splits json.splits)

theorem obo_exchange_failure_raises_witness:
  "invalid_grant_response ''assertion'' [''https://graph.microsoft.com/.default'']
       = Inr invalid_grant_result
   \<and> invalid_grant_result ''access_token'' = None
   \<and> obo_exchange invalid_grant_response render_unused ''assertion'' =
       Inl (RuntimeError ''OBO token exchange failed: invalid_grant AADSTS50013'')"
proof -
  have h1: "invalid_grant_response ''assertion'' [''https://graph.microsoft.com/.default'']
       = Inr invalid_grant_result"
    by (simp add: invalid_grant_response_def)
  have h2: "invalid_grant_result ''access_token'' = None"
    by (simp add: invalid_grant_result_def)
  have e: "invalid_grant_result ''error'' = Some (JStr ''invalid_grant'')"
    "invalid_grant_result ''error_description'' = Some (JStr ''AADSTS50013'')"
    by (simp_all add: invalid_grant_result_def)
  from obo_exchange_failure_raises
    [where acquire = invalid_grant_response and render = render_unused, OF h1 h2] h1 h2 e
  show ?thesis by simp
qed

text \<open>
  Claim C7: the outcome of the exchange is a token or a failure, never both. When the
  response has an access token the outcome is that token alone, whatever error fields
  the response also has; when it has none the outcome is the \<open>RuntimeError\<close>, and no
  token.
\<close>

theorem obo_exchange_exclusive:
  assumes "acquire assertion [''https://graph.microsoft.com/.default''] = Inr result"
  shows "(result ''access_token'' = Some t \<longrightarrow>
            obo_exchange acquire render assertion = Inr t)
       \<and> (result ''access_token'' = None \<longrightarrow>
            (\<exists>msg. obo_exchange acquire render assertion = Inl (RuntimeError msg)))"
  using assms by (simp add: obo_exchange_def)

text \<open>A response that has both an access token and the error fields.\<close>

theorem obo_exchange_exclusive_witness:
  "token_and_error_response ''assertion'' [''https://graph.microsoft.com/.default'']
       = Inr token_and_error_result
   \<and> token_and_error_result ''access_token'' = Some (JStr ''graph-token'')
   \<and> token_and_error_result ''error'' = Some (JStr ''invalid_grant'')
   \<and> obo_exchange token_and_error_response render_unused ''assertion''
       = Inr (JStr ''graph-token'')
   \<and> invalid_grant_response ''assertion'' [''https://graph.microsoft.com/.default'']
       = Inr invalid_grant_result
   \<and> invalid_grant_result ''access_token'' = None
   \<and> (\<exists>msg. obo_exchange invalid_grant_response render_unused ''assertion''
          = Inl (RuntimeError msg))"
proof -
  have h1: "token_and_error_response ''assertion'' [''https://graph.microsoft.com/.default'']
       = Inr token_and_error_result"
    by (simp add: token_and_error_response_def)
  have h2: "token_and_error_result ''access_token'' = Some (JStr ''graph-token'')"
    by (simp add: token_and_error_result_def)
  have h3: "token_and_error_result ''error'' = Some (JStr ''invalid_grant'')"
    by (simp add: token_and_error_result_def invalid_grant_result_def)
  have h4: "invalid_grant_response ''assertion'' [''https://graph.microsoft.com/.default'']
       = Inr invalid_grant_result"
    by (simp add: invalid_grant_response_def)
  have h5: "invalid_grant_result ''access_token'' = None"
    by (simp add: invalid_grant_result_def)
  from obo_exchange_exclusive
    [where acquire = token_and_error_response and render = render_unused
       and t = "JStr ''graph-token''", OF h1] h2
  have a: "obo_exchange token_and_error_response render_unused ''assertion''
       = Inr (JStr ''graph-token'')" by simp
  from obo_exchange_exclusive
    [where acquire = invalid_grant_response and render = render_unused
       and t = "JStr ''graph-token''", OF h4] h5
  have b: "\<exists>msg. obo_exchange invalid_grant_response render_unused ''assertion''
          = Inl (RuntimeError msg)" by simp
  from a b h1 h2 h3 h4 h5 show ?thesis by blast
qed

section \<open>The shared downstream client: properties\<close>

lemma run_ops_gets: "graph_client s = Some h \<Longrightarrow> run_ops (replicate n Get) s = s"
  by (induction n) (simp_all add: get_graph_client_def)

lemma returned_handles_gets:
  "graph_client s = Some h \<Longrightarrow> returned_handles (replicate n Get) s = replicate n h"
  by (induction n) (simp_all add: get_graph_client_def)

lemma run_ops_closes: "graph_client s = None \<Longrightarrow> run_ops (map Close ls) s = s"
  by (induction ls) (simp_all add: close_graph_client_def)

lemma close_graph_client_None: "graph_client (close_graph_client loop s) = None"
  by (simp add: close_graph_client_def split: option.splits)

lemma run_ops_append: "run_ops (xs @ ys) s = run_ops ys (run_ops xs s)"
  by (induction xs s rule: run_ops.induct) simp_all

lemma run_ops_first_get:
  "run_ops (replicate (Suc m) Get) initial_client_state = live_client_state"
proof -
  have "run_ops (replicate (Suc m) Get) initial_client_state
      = run_ops (replicate m Get) live_client_state"
    by (simp add: get_graph_client_def initial_client_state_def live_client_state_def)
  also have "\<dots> = live_client_state"
    by (rule run_ops_gets [of _ 0]) (simp add: live_client_state_def)
  finally show ?thesis .
qed

text \<open>The invariant holds at the start and is kept by both functions, so by every run.\<close>

lemma client_inv_initial: "client_inv initial_client_state"
  by (simp add: client_inv_def initial_client_state_def)

lemma client_inv_get: "client_inv s \<Longrightarrow> client_inv (snd (get_graph_client s))"
  by (auto simp add: client_inv_def get_graph_client_def Let_def list_all_iff
      split: option.splits)

lemma client_inv_close: "client_inv s \<Longrightarrow> client_inv (close_graph_client loop s)"
  by (auto simp add: client_inv_def close_graph_client_def list_all_iff
      split: option.splits)

lemma client_inv_run_ops: "client_inv s \<Longrightarrow> client_inv (run_ops ops s)"
  by (induction ops s rule: run_ops.induct) (simp_all add: client_inv_get client_inv_close)

lemma released_once:
  "distinct (map released_handle (releases (run_ops ops initial_client_state)))"
  using client_inv_run_ops [OF client_inv_initial, of ops]
  by (simp add: client_inv_def)

text \<open>
  Claim C8: the shared client is constructed lazily, once, on first use, and released
  once. Nothing is constructed before the first call of \<open>_get_graph_client\<close>; any
  number of calls constructs one client and returns it every time; after
  \<open>_close_graph_client\<close> the handle is absent; closing a present handle releases that
  handle, once; closing with no handle changes nothing, so closing again, or closing
  when no client was ever constructed, releases nothing further; a process that uses
  the client and then closes, any number of times, has constructed one client and
  released it once; and in no run at all is a client released twice.
\<close>

theorem client_lifecycle:
  "constructed initial_client_state = 0 \<and> graph_client initial_client_state = None
   \<and> run_ops (replicate (Suc m) Get) initial_client_state
       = \<lparr>graph_client = Some 0, constructed = 1, releases = []\<rparr>
   \<and> returned_handles (replicate (Suc m) Get) initial_client_state = replicate (Suc m) 0
   \<and> graph_client (close_graph_client loop s) = None
   \<and> (graph_client s = Some h \<longrightarrow>
        map released_handle (releases (close_graph_client loop s))
          = map released_handle (releases s) @ [h])
   \<and> (graph_client s = None \<longrightarrow> close_graph_client loop s = s)
   \<and> close_graph_client loop' (close_graph_client loop s) = close_graph_client loop s
   \<and> (let s' = run_ops (replicate (Suc m) Get @ map Close (l # ls)) initial_client_state
      in graph_client s' = None \<and> constructed s' = 1
         \<and> map released_handle (releases s') = [0])
   \<and> run_ops (map Close ls) initial_client_state = initial_client_state
   \<and> distinct (map released_handle (releases (run_ops ops initial_client_state)))"
proof -
  have a: "run_ops (replicate (Suc m) Get) initial_client_state
       = \<lparr>graph_client = Some 0, constructed = 1, releases = []\<rparr>"
    using run_ops_first_get [of m] by (simp add: live_client_state_def)
  have b: "returned_handles (replicate (Suc m) Get) initial_client_state = replicate (Suc m) 0"
  proof -
    have "returned_handles (replicate m Get) live_client_state = replicate m 0"
      by (rule returned_handles_gets) (simp add: live_client_state_def)
    then show ?thesis
      by (simp add: get_graph_client_def initial_client_state_def live_client_state_def)
  qed
  have c: "graph_client (close_graph_client loop s) = None"
    by (rule close_graph_client_None)
  have d: "graph_client s = Some h \<longrightarrow>
        map released_handle (releases (close_graph_client loop s))
          = map released_handle (releases s) @ [h]"
    by (simp add: close_graph_client_def)
  have e: "graph_client s = None \<longrightarrow> close_graph_client loop s = s"
    by (simp add: close_graph_client_def)
  have f: "close_graph_client loop' (close_graph_client loop s) = close_graph_client loop s"
    by (simp add: close_graph_client_def split: option.splits)
  have "run_ops (replicate (Suc m) Get @ map Close (l # ls)) initial_client_state
      = run_ops (map Close ls) (close_graph_client l live_client_state)"
    unfolding run_ops_append run_ops_first_get by simp
  also have "\<dots> = close_graph_client l live_client_state"
    by (rule run_ops_closes) (rule close_graph_client_None)
  finally have g: "run_ops (replicate (Suc m) Get @ map Close (l # ls)) initial_client_state
      = close_graph_client l live_client_state" .
  have h: "let s' = run_ops (replicate (Suc m) Get @ map Close (l # ls)) initial_client_state
      in graph_client s' = None \<and> constructed s' = 1
         \<and> map released_handle (releases s') = [0]"
    unfolding g by (simp add: close_graph_client_def live_client_state_def)
  have i: "run_ops (map Close ls) initial_client_state = initial_client_state"
    by (rule run_ops_closes) (simp add: initial_client_state_def)
  have j: "distinct (map released_handle (releases (run_ops ops initial_client_state)))"
    by (rule released_once)
  have k: "constructed initial_client_state = 0 \<and> graph_client initial_client_state = None"
    by (simp add: initial_client_state_def)
  from a b c d e f h i j k show ?thesis by blast
qed

text \<open>
  Three uses and two closes, the first with the loop running; closing a state that
  holds handle 0, and closing a state that holds none.
\<close>

theorem client_lifecycle_witness:
  "graph_client live_client_state = Some 0
   \<and> map released_handle (releases (close_graph_client LoopRunning live_client_state)) = [0]
   \<and> graph_client initial_client_state = None
   \<and> close_graph_client NoLoop initial_client_state = initial_client_state
   \<and> run_ops [Get, Get, Get, Close LoopRunning, Close NoLoop] initial_client_state
       = \<lparr>graph_client = None, constructed = 1, releases = [Scheduled 0]\<rparr>
   \<and> returned_handles [Get, Get, Get] initial_client_state = [0, 0, 0]"
proof -
  have h1: "graph_client live_client_state = Some 0"
    by (simp add: live_client_state_def)
  have h2: "graph_client initial_client_state = None"
    by (simp add: initial_client_state_def)
  note r1 = client_lifecycle
    [where m = 2 and loop = LoopRunning and s = live_client_state and h = 0
       and loop' = NoLoop and l = LoopRunning and ls = "[NoLoop]"
       and ops = "[Get, Get, Get, Close LoopRunning, Close NoLoop]"]
  note r2 = client_lifecycle
    [where m = 2 and loop = NoLoop and s = initial_client_state and h = 0
       and loop' = NoLoop and l = LoopRunning and ls = "[NoLoop]"
       and ops = "[Get, Get, Get, Close LoopRunning, Close NoLoop]"]
  from r1 h1
  have a: "map released_handle (releases (close_graph_client LoopRunning live_client_state)) = [0]"
    by (simp add: live_client_state_def)
  from r2 h2
  have b: "close_graph_client NoLoop initial_client_state = initial_client_state"
    by blast
  have c: "run_ops [Get, Get, Get, Close LoopRunning, Close NoLoop] initial_client_state
       = \<lparr>graph_client = None, constructed = 1, releases = [Scheduled 0]\<rparr>"
    by (simp add: initial_client_state_def get_graph_client_def close_graph_client_def)
  have d: "returned_handles [Get, Get, Get] initial_client_state = [0, 0, 0]"
    by (simp add: initial_client_state_def get_graph_client_def)
  from a b c d h1 h2 show ?thesis by blast
qed

end
